theory Spec2Isabelle
  imports Complex_Main "HOL-Library.Sublist"
begin

section \<open>The installer: \<^verbatim>\<open>scripts/install_nightly.py\<close>\<close>

text \<open>
  The script runs three steps in a row. The steps themselves are methods of
  \<^verbatim>\<open>CondaSetup\<close> and \<^verbatim>\<open>UVCDATSetup.NightlySetup\<close>, and the
  status constants come from \<^verbatim>\<open>from Const import *\<close>; none of these
  modules is part of the sources at hand, so they are parameters of the model. Every
  step acts on the machine (file system, network); that machine is an opaque state
  \<open>'w\<close> threaded through the steps.

  \<^verbatim>\<open>args.workdir\<close> and \<^verbatim>\<open>args.py_ver\<close> are \<^verbatim>\<open>None\<close>
  when the flag is absent, hence \<open>string option\<close>.

  The statuses are Python integers. The exit code of the process is what
  \<^verbatim>\<open>sys.exit(n)\<close> makes of the integer \<open>n\<close>: CPython converts it to a C long
  (64 bits here) and the operating system keeps the low 8 bits, so
  \<^verbatim>\<open>sys.exit(256)\<close> exits with 0 and \<^verbatim>\<open>sys.exit(-9)\<close> with 247; an
  integer that does not fit the C long makes the conversion fail with -1, and the
  process exits with 255.
\<close>

definition sys_exit :: "int \<Rightarrow> int" where
  "sys_exit n = (if - (2 ^ 63) \<le> n \<and> n < 2 ^ 63 then n mod 256 else 255)"

record 'w installer_env =
  SUCCESS :: int
  FAILURE :: int
  install_miniconda :: "string option \<Rightarrow> 'w \<Rightarrow> (int \<times> string) \<times> 'w"
  install :: "string \<Rightarrow> string option \<Rightarrow> string option \<Rightarrow> 'w \<Rightarrow> int \<times> 'w"
  install_packages_for_tests :: "string \<Rightarrow> string option \<Rightarrow> string option \<Rightarrow> 'w \<Rightarrow> int \<times> 'w"

text \<open>The steps that were executed, in order, with the arguments they received.\<close>

datatype step =
    Step_install_miniconda "string option"
  | Step_install string "string option" "string option"
  | Step_install_packages_for_tests string "string option" "string option"

record 'w run =
  exit_code :: int
  executed :: "step list"
  machine :: 'w

definition install_nightly ::
  "'w installer_env \<Rightarrow> string option \<Rightarrow> string option \<Rightarrow> 'w \<Rightarrow> 'w run" where
  "install_nightly env workdir py_ver w =
     (case install_miniconda env workdir w of ((status, conda_path), w1) \<Rightarrow>
        if status \<noteq> SUCCESS env
        then \<lparr>exit_code = sys_exit (FAILURE env),
              executed = [Step_install_miniconda workdir],
              machine = w1\<rparr>
        else
          (case install env conda_path workdir py_ver w1 of (status2, w2) \<Rightarrow>
             if status2 \<noteq> SUCCESS env
             then \<lparr>exit_code = sys_exit (FAILURE env),
                   executed = [Step_install_miniconda workdir,
                               Step_install conda_path workdir py_ver],
                   machine = w2\<rparr>
             else
               (case install_packages_for_tests env conda_path workdir py_ver w2 of
                  (status3, w3) \<Rightarrow>
                    \<lparr>exit_code = sys_exit status3,
                     executed = [Step_install_miniconda workdir,
                                 Step_install conda_path workdir py_ver,
                                 Step_install_packages_for_tests conda_path workdir py_ver],
                     machine = w3\<rparr>)))"

text \<open>
  Modelled from the spec: the module \<^verbatim>\<open>Const\<close>, which defines
  \<^verbatim>\<open>SUCCESS\<close> and \<^verbatim>\<open>FAILURE\<close>, is not among the sources. By the
  specification a failed step makes the process exit "with a failure code" (section 4.2),
  "nonzero on failure at any step" (section 6): \<^verbatim>\<open>FAILURE\<close> is a nonzero exit
  code, one of 1, ..., 255.
\<close>

definition is_failure_code :: "int \<Rightarrow> bool" where
  "is_failure_code c \<longleftrightarrow> 0 < c \<and> c < 256"

text \<open>
  A concrete installer environment for evaluating the script: the machine state is a
  counter of the steps run so far, \<open>SUCCESS = 0\<close>, \<open>FAILURE = 1\<close>, and the three
  steps answer with the given status codes.
\<close>

definition demo_installer :: "int \<Rightarrow> int \<Rightarrow> int \<Rightarrow> nat installer_env" where
  "demo_installer st1 st2 st3 =
     \<lparr>SUCCESS = 0, FAILURE = 1,
      install_miniconda = (\<lambda>workdir w. ((st1, ''/work/miniconda''), Suc w)),
      install = (\<lambda>conda_path workdir py_ver w. (st2, Suc w)),
      install_packages_for_tests = (\<lambda>conda_path workdir py_ver w. (st3, Suc w))\<rparr>"

section \<open>The menu bar: \<^verbatim>\<open>Packages/qtbrowser/Lib/mainMenuWidget.py\<close>\<close>

subsection \<open>Python 2 byte strings\<close>

text \<open>
  Labels are \<^verbatim>\<open>str\<close> objects of Python 2, that is byte strings, as
  \<^typ>\<open>string\<close> is. \<^verbatim>\<open>s.lower()\<close> maps the 26 upper-case ASCII letters to
  lower case and leaves every other byte alone; \<^verbatim>\<open>s.split()\<close> cuts at runs of
  the six ASCII whitespace bytes and yields no empty word; \<^verbatim>\<open>"".join(ws)\<close>
  concatenates.
\<close>

definition ascii_uppercase :: string where
  "ascii_uppercase = ''ABCDEFGHIJKLMNOPQRSTUVWXYZ''"

definition ascii_lowercase :: string where
  "ascii_lowercase = ''abcdefghijklmnopqrstuvwxyz''"

definition lower_char :: "char \<Rightarrow> char" where
  "lower_char c = (case map_of (zip ascii_uppercase ascii_lowercase) c of
                     Some d \<Rightarrow> d | None \<Rightarrow> c)"

definition lower :: "string \<Rightarrow> string" where
  "lower s = map lower_char s"

definition isspace :: "char \<Rightarrow> bool" where
  "isspace c \<longleftrightarrow> c \<in> set [CHR '' '', CHR 0x09, CHR 0x0A, CHR 0x0B, CHR 0x0C, CHR 0x0D]"

fun split_from :: "string \<Rightarrow> string \<Rightarrow> string list" where
  "split_from word [] = (if word = [] then [] else [word])"
| "split_from word (c # cs) =
     (if isspace c
      then (if word = [] then split_from [] cs else word # split_from [] cs)
      else split_from (word @ [c]) cs)"

definition split :: "string \<Rightarrow> string list" where
  "split s = split_from [] s"

definition join_empty :: "string list \<Rightarrow> string" where
  "join_empty ws = concat ws"

subsection \<open>Variables, library functions, calls\<close>

text \<open>
  A data variable has an \<^verbatim>\<open>id\<close> (here \<open>vid\<close>, as \<open>id\<close> is the identity of
  HOL) and stands for some data object, named by a number.
\<close>

record variable =
  vid :: string
  handle :: nat

text \<open>
  A function object reached from \<^verbatim>\<open>cdutil.times\<close>: an attribute of the module,
  or the \<^verbatim>\<open>.climatology\<close> or \<^verbatim>\<open>.departures\<close> attribute of such an object.
\<close>

datatype tfunc = Times string | Climatology tfunc | Departures tfunc

datatype pyval = PyInt int | PyFloat real

text \<open>One call into the library: the function, the variable, the further arguments.\<close>

datatype call = Call tfunc variable "pyval list"

datatype exc = AttributeError string | KeyError string | NameError string

subsection \<open>The statistics table\<close>

datatype choice_val = CNone | CLen | CInt int

datatype choice = Flag string | Valued string "choice_val list"

record statdef =
  stat_func :: string
  nargsMin :: nat
  nargsMax :: nat
  choices :: "choice list option"

definition statsFuncs_init :: "(string \<times> statdef) list" where
  "statsFuncs_init =
    [(''Mean'', \<lparr>stat_func = ''cdutil.averager'', nargsMin = 1, nargsMax = 2, choices = None\<rparr>),
     (''Variance'', \<lparr>stat_func = ''genutil.statistics.variance'', nargsMin = 1, nargsMax = 2,
        choices = Some [Flag ''centered'', Flag ''biased'', Flag ''max_pct_missingoptions'']\<rparr>),
     (''Standard Deviation'', \<lparr>stat_func = ''genutil.statistics.std'', nargsMin = 1, nargsMax = 2,
        choices = Some [Flag ''centered'', Flag ''biased'', Flag ''max_pct_missingoptions'']\<rparr>),
     (''Root Mean Square'', \<lparr>stat_func = ''genutil.statistics.rms'', nargsMin = 2, nargsMax = 3,
        choices = Some [Flag ''centered'', Flag ''biased'', Flag ''max_pct_missingoptions'']\<rparr>),
     (''Correlation'', \<lparr>stat_func = ''genutil.statistics.correlation'', nargsMin = 2, nargsMax = 3,
        choices = Some [Flag ''centered'', Flag ''biased'', Flag ''max_pct_missingoptions'']\<rparr>),
     (''Lagged Corelation'', \<lparr>stat_func = ''genutil.statistics.laggedcorrelation'',
        nargsMin = 2, nargsMax = 2,
        choices = Some [Flag ''centered'', Flag ''partial'', Flag ''biased'', Flag ''noloop'',
                        Valued ''lag'' [CNone, CLen]]\<rparr>),
     (''Covariance'', \<lparr>stat_func = ''genutil.statistics.covariance'', nargsMin = 2, nargsMax = 3,
        choices = Some [Flag ''centered'', Flag ''biased'', Flag ''max_pct_missingoptions'']\<rparr>),
     (''Lagged Covariance'', \<lparr>stat_func = ''genutil.statistics.laggedcovariance'',
        nargsMin = 2, nargsMax = 2,
        choices = Some [Flag ''centered'', Flag ''partial'', Flag ''noloop'',
                        Valued ''lag'' [CNone, CLen]]\<rparr>),
     (''Autocorrelation'', \<lparr>stat_func = ''genutil.statistics.autocorrelation'',
        nargsMin = 1, nargsMax = 1,
        choices = Some [Flag ''centered'', Flag ''partial'', Flag ''biased'', Flag ''noloop'',
                        Valued ''lag'' [CNone, CLen]]\<rparr>),
     (''Autocovariance'', \<lparr>stat_func = ''genutil.statistics.autocovariance'',
        nargsMin = 1, nargsMax = 1,
        choices = Some [Flag ''centered'', Flag ''partial'', Flag ''noloop'',
                        Valued ''lag'' [CNone, CLen]]\<rparr>),
     (''Mean Absolute Difference'', \<lparr>stat_func = ''genutil.statistics.meanabsdiff'',
        nargsMin = 2, nargsMax = 3, choices = Some [Flag ''centered'']\<rparr>),
     (''Linear Regression'', \<lparr>stat_func = ''genutil.statistics.linearregression'',
        nargsMin = 1, nargsMax = 2,
        choices = Some [Valued ''error'' [CInt 0, CInt 1, CInt 2, CInt 3],
                        Flag ''probability'', Flag ''nointercept'', Flag ''noslope'']\<rparr>),
     (''Geometric Mean'', \<lparr>stat_func = ''genutil.statistics.geometricmean'',
        nargsMin = 1, nargsMax = 1, choices = None\<rparr>),
     (''Median'', \<lparr>stat_func = ''genutil.statistics.median'',
        nargsMin = 1, nargsMax = 1, choices = None\<rparr>),
     (''Rank (in %)'', \<lparr>stat_func = ''genutil.statistics.rank'',
        nargsMin = 1, nargsMax = 1, choices = None\<rparr>)]"

subsection \<open>The widget and the session around it\<close>

text \<open>
  Of the attributes of \<^verbatim>\<open>QMenuWidget\<close>, the handlers read
  \<^verbatim>\<open>self.statsFuncs\<close> and assign \<^verbatim>\<open>self.pop\<close> (the popup that
  \<^verbatim>\<open>stats\<close> opens) and \<^verbatim>\<open>self.bDialog\<close> (the input dialog of the X-Daily
  action); the two are unset after \<^verbatim>\<open>__init__\<close>. The menus built by
  \<^verbatim>\<open>__init__\<close> are not touched by any handler and are left out.
\<close>

text \<open>
  \<^verbatim>\<open>preFuncPopUp(...)\<close> and \<^verbatim>\<open>QtGui.QInputDialog()\<close> build a new
  object on every call. An object carries its identity, the number of objects the
  handlers had built before it.
\<close>

record preFuncPopUp =
  defs :: statdef
  visible :: bool
  popup_obj :: nat

datatype qinputdialog = QInputDialog nat

record dispatcher =
  statsFuncs :: "(string \<times> statdef) list"
  pop :: "preFuncPopUp option"
  bDialog :: "qinputdialog option"

definition dispatcher_init :: dispatcher where
  "dispatcher_init = \<lparr>statsFuncs = statsFuncs_init, pop = None, bDialog = None\<rparr>"

text \<open>
  What a handler can change: the widget itself (\<open>self\<close>), the session transcript kept
  by \<^verbatim>\<open>self.root\<close>, the variable pool of \<^verbatim>\<open>self.root.definedVar.widget\<close>,
  and, as a record of what happened outside, the calls made into
  \<^verbatim>\<open>cdutil.times\<close>, the number of frequency prompts shown so far and the
  number of popups and dialogs built so far.
\<close>

record session =
  self :: dispatcher
  transcript :: "string list"
  pool :: "variable list"
  calls :: "call list"
  prompts :: nat
  allocated :: nat

text \<open>
  The world outside the widget, as parameters:
  \<^item> \<open>times_hasattr n\<close>: the module \<^verbatim>\<open>cdutil.times\<close> has an attribute \<open>n\<close>.
    Such an attribute is taken to be one of the module's time slicers, a callable with
    the attributes \<^verbatim>\<open>climatology\<close> and \<^verbatim>\<open>departures\<close>; the attributes
    the source names literally (\<^verbatim>\<open>YEAR\<close>, \<^verbatim>\<open>setTimeBoundsDaily\<close>, ...)
    are taken to exist.
  \<^item> \<open>times_call f v\<close>: the object that calling \<open>f\<close> on \<open>v\<close> returns.
  \<^item> \<open>getDouble k\<close>: what the user answers to the \<open>k\<close>-th frequency prompt of the
    session (counting from 0), as \<^verbatim>\<open>QInputDialog.getDouble\<close> returns it: the
    value and the \<^verbatim>\<open>ok\<close> flag. The value is a finite double of the dialog's
    range; it is only compared with zero and passed on, and is modelled as a real.
  \<^item> \<open>fmt_g x\<close>: the text of \<^verbatim>\<open>"%g" % x\<close>.
\<close>

record env =
  times_hasattr :: "string \<Rightarrow> bool"
  times_call :: "tfunc \<Rightarrow> variable \<Rightarrow> variable"
  getDouble :: "nat \<Rightarrow> real \<times> bool"
  fmt_g :: "real \<Rightarrow> string"

text \<open>
  Modelled from the spec: \<^verbatim>\<open>self.root.record\<close> is defined outside the sources
  at hand; by the spec's section 6 the session recorder "appends a line to the
  transcript".
\<close>

definition root_record :: "string \<Rightarrow> session \<Rightarrow> session" where
  "root_record line s = s\<lparr>transcript := transcript s @ [line]\<rparr>"

text \<open>
  Modelled from the spec: \<^verbatim>\<open>definedVar.widget.addVariable\<close> is defined outside
  the sources at hand; by the spec's section 4.1 it "adds [the result] to the shared
  variable pool".
\<close>

definition addVariable :: "variable \<Rightarrow> session \<Rightarrow> session" where
  "addVariable v s = s\<lparr>pool := pool s @ [v]\<rparr>"

definition library_call :: "call \<Rightarrow> session \<Rightarrow> session" where
  "library_call c s = s\<lparr>calls := calls s @ [c]\<rparr>"

text \<open>
  A handler returns the exception it raised, if any, and the session as it stands at
  that moment. \<^verbatim>\<open>for v in selectedVars: body\<close> stops at the first exception.
\<close>

fun for_each ::
  "(variable \<Rightarrow> session \<Rightarrow> exc option \<times> session) \<Rightarrow> variable list \<Rightarrow> session
    \<Rightarrow> exc option \<times> session" where
  "for_each body [] s = (None, s)"
| "for_each body (v # vs) s =
     (case body v s of
        (Some e, s') \<Rightarrow> (Some e, s')
      | (None, s') \<Rightarrow> for_each body vs s')"

subsection \<open>\<^verbatim>\<open>QMenuWidget.stats\<close>\<close>

definition stats :: "string \<Rightarrow> session \<Rightarrow> exc option \<times> session" where
  "stats nm s =
     (case map_of (statsFuncs (self s)) nm of
        None \<Rightarrow> (Some (KeyError nm), s)
      | Some d \<Rightarrow>
          (None, s\<lparr>self := (self s)\<lparr>pop := Some \<lparr>defs = d, visible = True,
                                                  popup_obj = allocated s\<rparr>\<rparr>,
                   allocated := Suc (allocated s)\<rparr>))"

subsection \<open>\<^verbatim>\<open>QMenuWidget.seasons\<close>\<close>

text \<open>"First which season?": the function object and its name, for the label.\<close>

definition which_season :: "env \<Rightarrow> string \<Rightarrow> exc + tfunc \<times> string" where
  "which_season env nm =
     (if nm = ''Annual Means'' then Inr (Times ''YEAR'', ''cdutil.times.YEAR'')
      else if nm = ''Seasonal Means''
        then Inr (Times ''SEASONALCYCLE'', ''cdutil.times.SEASONALCYCLE'')
      else if nm = ''Monthly Means''
        then Inr (Times ''ANNUALCYCLE'', ''cdutil.times.ANNUALCYCLE'')
      else if times_hasattr env nm then Inr (Times nm, ''cdutil.times.'' @ nm)
      else Inl (AttributeError nm))"

text \<open>"Now which operator?": function, name and the header text \<^verbatim>\<open>rec\<close> so far.\<close>

definition which_operator ::
  "string \<Rightarrow> tfunc \<times> string \<Rightarrow> tfunc \<times> string \<times> string" where
  "which_operator menu fn =
     (case fn of (func, funcnm) \<Rightarrow>
        if menu = ''Climatology''
          then (Climatology func, funcnm @ ''.climatology'', ''climatological '')
        else if menu = ''Departures''
          then (Departures func, funcnm @ ''.departures'', ''departures from '')
        else (func, funcnm, ''## Computing ''))"

definition seasons_newid :: "string \<Rightarrow> string \<Rightarrow> variable \<Rightarrow> string" where
  "seasons_newid menu nm v =
     (let ext = join_empty (split (lower nm));
          newid = vid v @ ''_'' @ ext
      in if menu \<noteq> ''Extract'' then newid @ lower menu else newid)"

definition seasons_body ::
  "env \<Rightarrow> string \<Rightarrow> string \<Rightarrow> tfunc \<Rightarrow> string \<Rightarrow> string \<Rightarrow> variable \<Rightarrow> session
    \<Rightarrow> exc option \<times> session" where
  "seasons_body env menu nm func funcnm rec v s =
     (let tmp = times_call env func v;
          s1 = library_call (Call func v []) s;
          newid = seasons_newid menu nm v;
          tmp' = tmp\<lparr>vid := newid\<rparr>;
          s2 = addVariable tmp' s1;
          s3 = root_record rec s2;
          s4 = root_record (newid @ '' = '' @ funcnm @ ''('' @ vid v @ '')'') s3
      in (None, s4))"

definition seasons ::
  "env \<Rightarrow> string \<Rightarrow> string \<Rightarrow> variable list \<Rightarrow> session \<Rightarrow> exc option \<times> session" where
  "seasons env menu nm selectedVars s =
     (case which_season env nm of
        Inl e \<Rightarrow> (Some e, s)
      | Inr fn \<Rightarrow>
          (case which_operator menu fn of (func, funcnm, rec0) \<Rightarrow>
             for_each (seasons_body env menu nm func funcnm (rec0 @ lower nm))
               selectedVars s))"

subsection \<open>\<^verbatim>\<open>QMenuWidget.setBounds\<close>\<close>

text \<open>
  The local \<^verbatim>\<open>val\<close> is bound only when the label is the X-Daily one, hence an
  option; reading it unbound would be a \<^verbatim>\<open>NameError\<close>.
\<close>

definition setBounds_body ::
  "env \<Rightarrow> string \<Rightarrow> real option \<Rightarrow> variable \<Rightarrow> session \<Rightarrow> exc option \<times> session" where
  "setBounds_body env nm val v s =
     (if nm = ''Set Bounds For Yearly Data'' then
        (None, root_record (''cdutil.times.setTimeBoundsYearly('' @ vid v @ '')'')
                (root_record ''## Set Bounds For Yearly Data''
                  (library_call (Call (Times ''setTimeBoundsYearly'') v []) s)))
      else if nm = ''Set Bounds For Monthly Data'' then
        (None, root_record (''cdutil.times.setTimeBoundsMonthly('' @ vid v @ '')'')
                (root_record ''## Set Bounds For Monthly Data''
                  (library_call (Call (Times ''setTimeBoundsMonthly'') v []) s)))
      else if nm = ''Set Bounds For Daily Data'' then
        (None, root_record (''cdutil.times.setTimeBoundDaily('' @ vid v @ '')'')
                (root_record ''## Set Bounds For Daily Data''
                  (library_call (Call (Times ''setTimeBoundsDaily'') v []) s)))
      else if nm = ''Set Bounds For Twice-daily Data'' then
        (None, root_record (''cdutil.times.setTimeBoundDaily('' @ vid v @ '',2)'')
                (root_record ''## Set Bounds For Twice-daily Data''
                  (library_call (Call (Times ''setTimeBoundsDaily'') v [PyInt 2]) s)))
      else if nm = ''Set Bounds For 6-Hourly Data'' then
        (None, root_record (''cdutil.times.setTimeBoundDaily('' @ vid v @ '',4)'')
                (root_record ''## Set Bounds For 6-Hourly Data''
                  (library_call (Call (Times ''setTimeBoundsDaily'') v [PyInt 4]) s)))
      else if nm = ''Set Bounds For Hourly Data'' then
        (None, root_record (''cdutil.times.setTimeBoundDaily('' @ vid v @ '',24)'')
                (root_record ''## Set Bounds For Hourly Data''
                  (library_call (Call (Times ''setTimeBoundsDaily'') v [PyInt 24]) s)))
      else if nm = ''Set Bounds For X-Daily Data'' then
        (case val of
           None \<Rightarrow> (Some (NameError ''val''), s)
         | Some x \<Rightarrow>
            (None, root_record (''cdutil.times.setTimeBoundDaily('' @ vid v @ '','' @ fmt_g env x @ '')'')
                    (root_record ''## Set Bounds For X-Daily Data''
                      (library_call (Call (Times ''setTimeBoundsDaily'') v [PyFloat x]) s))))
      else (None, s))"

definition setBounds ::
  "env \<Rightarrow> string \<Rightarrow> variable list \<Rightarrow> session \<Rightarrow> exc option \<times> session" where
  "setBounds env nm selectedVars s =
     (if nm = ''Set Bounds For X-Daily Data'' then
        (let s1 = s\<lparr>self := (self s)\<lparr>bDialog := Some (QInputDialog (allocated s))\<rparr>,
                    allocated := Suc (allocated s)\<rparr>;
             (val, ok) = getDouble env (prompts s1);
             s2 = s1\<lparr>prompts := Suc (prompts s1)\<rparr>
         in if \<not> ok \<or> val \<le> 0 then (None, s2)
            else for_each (setBounds_body env nm (Some val)) selectedVars s2)
      else for_each (setBounds_body env nm None) selectedVars s)"

subsection \<open>The menus built by \<^verbatim>\<open>__init__\<close>\<close>

definition bounds_labels :: "string list" where
  "bounds_labels =
     [''Set Bounds For Yearly Data'', ''Set Bounds For Monthly Data'',
      ''Set Bounds For Daily Data'', ''Set Bounds For Twice-daily Data'',
      ''Set Bounds For 6-Hourly Data'', ''Set Bounds For Hourly Data'',
      ''Set Bounds For X-Daily Data'']"

definition season_menus :: "string list" where
  "season_menus = [''Extract'', ''Climatology'', ''Departures'']"

text \<open>
  The three labels that \<^verbatim>\<open>seasons\<close> compares with literally, and the names
  under which it reaches into \<^verbatim>\<open>cdutil.times\<close> for the labels of the menus:
  three names written in the source, and every other label under its own name.
\<close>

definition means_labels :: "string list" where
  "means_labels = [''Annual Means'', ''Seasonal Means'', ''Monthly Means'']"

definition slicer_names :: "string list" where
  "slicer_names =
     [''YEAR'', ''SEASONALCYCLE'', ''ANNUALCYCLE'', ''DJF'', ''MAM'', ''JJA'', ''SON'',
      ''JAN'', ''FEB'', ''MAR'', ''APR'', ''MAY'', ''JUN'',
      ''JUL'', ''AUG'', ''SEP'', ''OCT'', ''NOV'', ''DEC'']"

definition season_labels :: "string list" where
  "season_labels =
     [''Annual Means'', ''Seasonal Means'', ''DJF'', ''MAM'', ''JJA'', ''SON'',
      ''Monthly Means'', ''JAN'', ''FEB'', ''MAR'', ''APR'', ''MAY'', ''JUN'',
      ''JUL'', ''AUG'', ''SEP'', ''OCT'', ''NOV'', ''DEC'']"

subsection \<open>What the handlers are expected to do\<close>

text \<open>
  The identifier of a derived result, in the words of the specification: the id of the
  variable, an underscore, the label in lower case with every whitespace character
  removed, and the menu title in lower case unless the menu is "Extract".
\<close>

definition spec_result_id :: "string \<Rightarrow> string \<Rightarrow> string \<Rightarrow> string" where
  "spec_result_id menu nm i =
     i @ ''_'' @ filter (\<lambda>c. \<not> isspace c) (lower nm)
       @ (if menu = ''Extract'' then [] else lower menu)"

text \<open>
  The bound-setting call that belongs to each time-bounds label: the function of
  \<^verbatim>\<open>cdutil.times\<close> and the arguments after the variable (the number of samples
  per day: none for daily data, 2 for twice-daily, 4 for 6-hourly, 24 for hourly, the
  frequency the user entered for X-daily).
\<close>

definition expected_bounds_call :: "real \<Rightarrow> (string \<times> string \<times> pyval list) list" where
  "expected_bounds_call freq =
     [(''Set Bounds For Yearly Data'', ''setTimeBoundsYearly'', []),
      (''Set Bounds For Monthly Data'', ''setTimeBoundsMonthly'', []),
      (''Set Bounds For Daily Data'', ''setTimeBoundsDaily'', []),
      (''Set Bounds For Twice-daily Data'', ''setTimeBoundsDaily'', [PyInt 2]),
      (''Set Bounds For 6-Hourly Data'', ''setTimeBoundsDaily'', [PyInt 4]),
      (''Set Bounds For Hourly Data'', ''setTimeBoundsDaily'', [PyInt 24]),
      (''Set Bounds For X-Daily Data'', ''setTimeBoundsDaily'', [PyFloat freq])]"

subsection \<open>A concrete session for evaluating the handlers\<close>

text \<open>
  A library whose \<^verbatim>\<open>cdutil.times\<close> has the slicers of the menus and nothing
  else, a user who gives the same answer to every frequency prompt, a fresh widget with
  an empty transcript and pool, and two variables.
\<close>

definition demo_env :: "real \<times> bool \<Rightarrow> env" where
  "demo_env answer =
     \<lparr>times_hasattr = (\<lambda>n. n \<in> set slicer_names),
      times_call = (\<lambda>f v. \<lparr>vid = ''variable_3'', handle = handle v + 100\<rparr>),
      getDouble = (\<lambda>k. answer),
      fmt_g = (\<lambda>x. if x = 8 then ''8'' else ''?'')\<rparr>"

definition session_init :: session where
  "session_init =
     \<lparr>self = dispatcher_init, transcript = [], pool = [], calls = [], prompts = 0,
      allocated = 0\<rparr>"

definition tas :: variable where
  "tas = \<lparr>vid = ''tas'', handle = 0\<rparr>"

definition pr :: variable where
  "pr = \<lparr>vid = ''pr'', handle = 1\<rparr>"

section \<open>Installer: properties\<close>

lemma sys_exit_in_range: "0 \<le> n \<Longrightarrow> n < 256 \<Longrightarrow> sys_exit n = n"
  by (simp add: sys_exit_def)

lemma sys_exit_long:
  "- (2 ^ 63) \<le> n \<Longrightarrow> n < 2 ^ 63 \<Longrightarrow> sys_exit n = n mod 256"
  by (simp add: sys_exit_def)

text \<open>
  Claim C4. If step 1 (\<^verbatim>\<open>install_miniconda\<close>) returns a status other than
  \<^verbatim>\<open>SUCCESS\<close>, then neither step 2 nor step 3 is executed: the only step run
  is step 1, the machine is left as step 1 left it, and the process exits with the
  exit code of \<^verbatim>\<open>sys.exit(FAILURE)\<close>, which is \<^verbatim>\<open>FAILURE\<close> itself and
  nonzero, \<^verbatim>\<open>FAILURE\<close> being a failure code.
\<close>

theorem install_nightly_step1_failure:
  assumes step1: "install_miniconda env workdir w = ((status, conda_path), w1)"
    and failed: "status \<noteq> SUCCESS env"
    and failure: "is_failure_code (FAILURE env)"
  shows "exit_code (install_nightly env workdir py_ver w) \<noteq> 0
       \<and> exit_code (install_nightly env workdir py_ver w) = sys_exit (FAILURE env)
       \<and> exit_code (install_nightly env workdir py_ver w) = FAILURE env
       \<and> executed (install_nightly env workdir py_ver w) = [Step_install_miniconda workdir]
       \<and> machine (install_nightly env workdir py_ver w) = w1"
proof -
  from failure have "sys_exit (FAILURE env) = FAILURE env" and "FAILURE env \<noteq> 0"
    by (simp_all add: is_failure_code_def sys_exit_in_range)
  with step1 failed show ?thesis by (simp add: install_nightly_def)
qed

theorem install_nightly_step1_failure_witness:
  "exit_code (install_nightly (demo_installer 1 0 0) (Some ''/work'') (Some ''py2'') 0) = 1
   \<and> executed (install_nightly (demo_installer 1 0 0) (Some ''/work'') (Some ''py2'') 0)
       = [Step_install_miniconda (Some ''/work'')]
   \<and> machine (install_nightly (demo_installer 1 0 0) (Some ''/work'') (Some ''py2'') 0) = Suc 0"
proof -
  have step1: "install_miniconda (demo_installer 1 0 0) (Some ''/work'') 0
                 = ((1, ''/work/miniconda''), Suc 0)"
    by (simp add: demo_installer_def)
  have failed: "(1::int) \<noteq> SUCCESS (demo_installer 1 0 0)"
    by (simp add: demo_installer_def)
  have failure: "is_failure_code (FAILURE (demo_installer 1 0 0))"
    by (simp add: demo_installer_def is_failure_code_def)
  from install_nightly_step1_failure [OF step1 failed failure, of "Some ''py2''"]
  show ?thesis by (simp add: demo_installer_def)
qed

text \<open>
  Claim C5, as the code has it. If step 1 and step 2 both return
  \<^verbatim>\<open>SUCCESS\<close>, all three steps are executed in order and the script ends with
  \<^verbatim>\<open>sys.exit(status)\<close> on the status of step 3
  (\<^verbatim>\<open>install_packages_for_tests\<close>), success or failure alike. The exit code of
  the process is that status reduced to its low 8 bits (the status modulo 256, for a
  status that fits a C long); it is the status itself exactly when the status is one of
  0, ..., 255.
\<close>

theorem install_nightly_exit_is_step3:
  assumes step1: "install_miniconda env workdir w = ((SUCCESS env, conda_path), w1)"
    and step2: "install env conda_path workdir py_ver w1 = (SUCCESS env, w2)"
    and step3: "install_packages_for_tests env conda_path workdir py_ver w2 = (status3, w3)"
  shows "exit_code (install_nightly env workdir py_ver w) = sys_exit status3
       \<and> (- (2 ^ 63) \<le> status3 \<and> status3 < 2 ^ 63 \<longrightarrow>
            exit_code (install_nightly env workdir py_ver w) = status3 mod 256)
       \<and> (0 \<le> status3 \<and> status3 < 256 \<longrightarrow>
            exit_code (install_nightly env workdir py_ver w) = status3)
       \<and> executed (install_nightly env workdir py_ver w) =
           [Step_install_miniconda workdir,
            Step_install conda_path workdir py_ver,
            Step_install_packages_for_tests conda_path workdir py_ver]
       \<and> machine (install_nightly env workdir py_ver w) = w3"
proof -
  have run: "install_nightly env workdir py_ver w =
               \<lparr>exit_code = sys_exit status3,
                executed = [Step_install_miniconda workdir,
                            Step_install conda_path workdir py_ver,
                            Step_install_packages_for_tests conda_path workdir py_ver],
                machine = w3\<rparr>"
    using assms by (simp add: install_nightly_def)
  show ?thesis
    unfolding run by (simp add: sys_exit_in_range sys_exit_long)
qed

theorem install_nightly_exit_is_step3_witness:
  "exit_code (install_nightly (demo_installer 0 0 7) (Some ''/work'') (Some ''py3'') 0) = 7
   \<and> exit_code (install_nightly (demo_installer 0 0 0) (Some ''/work'') (Some ''py3'') 0) = 0
   \<and> exit_code (install_nightly (demo_installer 0 0 256) (Some ''/work'') (Some ''py3'') 0) = 0
   \<and> machine (install_nightly (demo_installer 0 0 7) (Some ''/work'') (Some ''py3'') 0) = 3"
proof -
  have a: "install_miniconda (demo_installer 0 0 s) (Some ''/work'') 0
             = ((SUCCESS (demo_installer 0 0 s), ''/work/miniconda''), Suc 0)" for s
    by (simp add: demo_installer_def)
  have b: "install (demo_installer 0 0 s) ''/work/miniconda'' (Some ''/work'') (Some ''py3'') (Suc 0)
             = (SUCCESS (demo_installer 0 0 s), Suc (Suc 0))" for s
    by (simp add: demo_installer_def)
  have c: "install_packages_for_tests (demo_installer 0 0 s) ''/work/miniconda''
             (Some ''/work'') (Some ''py3'') (Suc (Suc 0)) = (s, Suc (Suc (Suc 0)))" for s
    by (simp add: demo_installer_def)
  from install_nightly_exit_is_step3 [OF a b c, of 7]
       install_nightly_exit_is_step3 [OF a b c, of 0]
       install_nightly_exit_is_step3 [OF a b c, of 256]
  show ?thesis by (simp add: numeral_3_eq_3)
qed

text \<open>
  A step 3 that returns -9, the return code of a child process killed by signal 9,
  makes the process exit with 247, not with -9.
\<close>

theorem install_nightly_exit_counterexample:
  "fst (install_packages_for_tests (demo_installer 0 0 (- 9)) ''/work/miniconda''
          (Some ''/work'') (Some ''py3'') 2) = - 9
   \<and> exit_code (install_nightly (demo_installer 0 0 (- 9)) (Some ''/work'') (Some ''py3'') 0) = 247
   \<and> exit_code (install_nightly (demo_installer 0 0 (- 9)) (Some ''/work'') (Some ''py3'') 0) \<noteq> - 9"
  by (simp add: install_nightly_def demo_installer_def sys_exit_def)

section \<open>Menu bar: auxiliary facts\<close>

subsection \<open>Splitting and joining\<close>

text \<open>
  Joining the words of \<^verbatim>\<open>s.split()\<close> with the empty string is the same as
  deleting every whitespace character of \<open>s\<close>.
\<close>

lemma concat_split_from:
  "concat (split_from word s) = word @ filter (\<lambda>c. \<not> isspace c) s"
  by (induction s arbitrary: word) auto

lemma join_split: "join_empty (split s) = filter (\<lambda>c. \<not> isspace c) s"
  by (simp add: join_empty_def split_def concat_split_from)

lemma seasons_newid_spec: "seasons_newid menu nm v = spec_result_id menu nm (vid v)"
  by (simp add: seasons_newid_def spec_result_id_def join_split Let_def)

subsection \<open>The loop over the selected variables\<close>

text \<open>
  A relation between sessions that is reflexive, transitive and established by every
  run of the loop body holds between the session before and after the loop, also when
  the loop stops at an exception.
\<close>

lemma for_each_rel:
  assumes refl: "\<And>s. R s s"
    and trans: "\<And>a b c. R a b \<Longrightarrow> R b c \<Longrightarrow> R a c"
    and step: "\<And>v s. R s (snd (body v s))"
  shows "R s (snd (for_each body vs s))"
proof (induction vs arbitrary: s)
  case Nil
  show ?case by (simp add: refl)
next
  case (Cons v vs)
  obtain e s' where b: "body v s = (e, s')" by (cases "body v s")
  have r: "R s s'" using step [of s v] b by simp
  show ?case
  proof (cases e)
    case None
    with b r Cons.IH [of s'] show ?thesis by (auto intro: trans)
  next
    case (Some x)
    with b r show ?thesis by simp
  qed
qed

lemma for_each_calls:
  assumes step: "\<And>v s. fst (body v s) = None \<and> calls (snd (body v s)) = calls s @ [c v]"
  shows "fst (for_each body vs s) = None
       \<and> calls (snd (for_each body vs s)) = calls s @ map c vs"
proof (induction vs arbitrary: s)
  case Nil
  show ?case by simp
next
  case (Cons v vs)
  obtain s' where b: "body v s = (None, s')"
    using step [of v s] by (cases "body v s") auto
  have "calls s' = calls s @ [c v]" using step [of v s] b by simp
  with b Cons.IH [of s'] show ?case by simp
qed

lemma for_each_transcript_length:
  assumes step: "\<And>v s. fst (body v s) = None
                   \<and> length (transcript (snd (body v s))) = length (transcript s) + k"
  shows "length (transcript (snd (for_each body vs s))) = length (transcript s) + k * length vs"
proof (induction vs arbitrary: s)
  case Nil
  show ?case by simp
next
  case (Cons v vs)
  obtain s' where b: "body v s = (None, s')"
    using step [of v s] by (cases "body v s") auto
  have "length (transcript s') = length (transcript s) + k" using step [of v s] b by simp
  with b Cons.IH [of s'] show ?case by simp
qed

lemma for_each_pool:
  assumes step: "\<And>v s. fst (body v s) = None \<and> pool (snd (body v s)) = pool s @ [r v]"
  shows "pool (snd (for_each body vs s)) = pool s @ map r vs"
proof (induction vs arbitrary: s)
  case Nil
  show ?case by simp
next
  case (Cons v vs)
  obtain s' where b: "body v s = (None, s')"
    using step [of v s] by (cases "body v s") auto
  have "pool s' = pool s @ [r v]" using step [of v s] b by simp
  with b Cons.IH [of s'] show ?case by simp
qed

lemma for_each_transcript:
  assumes step: "\<And>v s. fst (body v s) = None
                   \<and> transcript (snd (body v s)) = transcript s @ entries v"
  shows "transcript (snd (for_each body vs s)) = transcript s @ concat (map entries vs)"
proof (induction vs arbitrary: s)
  case Nil
  show ?case by simp
next
  case (Cons v vs)
  obtain s' where b: "body v s = (None, s')"
    using step [of v s] by (cases "body v s") auto
  have "transcript s' = transcript s @ entries v" using step [of v s] b by simp
  with b Cons.IH [of s'] show ?case by simp
qed

subsection \<open>One iteration of each handler\<close>

lemma setBounds_body_expected:
  assumes tab: "(nm, f, args) \<in> set (expected_bounds_call freq)"
    and val: "nm = ''Set Bounds For X-Daily Data'' \<Longrightarrow> val = Some freq"
  shows "fst (setBounds_body env nm val v s) = None
       \<and> calls (snd (setBounds_body env nm val v s)) = calls s @ [Call (Times f) v args]
       \<and> length (transcript (snd (setBounds_body env nm val v s))) = length (transcript s) + 2"
  using tab val
  by (auto simp add: expected_bounds_call_def setBounds_body_def root_record_def library_call_def)

lemma setBounds_body_header:
  assumes tab: "(nm, f, args) \<in> set (expected_bounds_call freq)"
    and val: "nm = ''Set Bounds For X-Daily Data'' \<Longrightarrow> val = Some freq"
  shows "\<exists>e. \<forall>s. transcript (snd (setBounds_body env nm val v s))
                 = transcript s @ [''## '' @ nm, e]"
  using tab val unfolding expected_bounds_call_def
  apply simp
  apply (elim disjE conjE)
        apply (simp_all add: setBounds_body_def root_record_def library_call_def)
  done

lemma setBounds_body_unknown:
  "nm \<notin> set bounds_labels \<Longrightarrow> setBounds_body env nm val v s = (None, s)"
  by (simp add: bounds_labels_def setBounds_body_def)

lemma for_each_skip:
  assumes "\<And>v s. body v s = (None, s)"
  shows "for_each body vs s = (None, s)"
  by (induction vs) (simp_all add: assms)

lemma setBounds_body_prefix:
  "prefix (transcript s) (transcript (snd (setBounds_body env nm val v s)))"
  by (simp add: setBounds_body_def root_record_def library_call_def split: option.split)

lemma setBounds_body_self:
  "self (snd (setBounds_body env nm val v s)) = self s"
  by (simp add: setBounds_body_def root_record_def library_call_def split: option.split)

lemma setBounds_body_prompts:
  "prompts (snd (setBounds_body env nm val v s)) = prompts s"
  by (simp add: setBounds_body_def root_record_def library_call_def split: option.split)

lemma seasons_body_effect:
  "fst (seasons_body env menu nm fu funcnm rec v s) = None
   \<and> calls (snd (seasons_body env menu nm fu funcnm rec v s)) = calls s @ [Call fu v []]
   \<and> pool (snd (seasons_body env menu nm fu funcnm rec v s))
       = pool s @ [(times_call env fu v)\<lparr>vid := seasons_newid menu nm v\<rparr>]
   \<and> transcript (snd (seasons_body env menu nm fu funcnm rec v s))
       = transcript s @ [rec, seasons_newid menu nm v @ '' = '' @ funcnm @ ''('' @ vid v @ '')'']
   \<and> self (snd (seasons_body env menu nm fu funcnm rec v s)) = self s"
  by (simp add: seasons_body_def Let_def root_record_def library_call_def addVariable_def)

subsection \<open>The three ways through \<^verbatim>\<open>setBounds\<close>\<close>

lemma setBounds_not_xdaily:
  "nm \<noteq> ''Set Bounds For X-Daily Data'' \<Longrightarrow>
     setBounds env nm vars s = for_each (setBounds_body env nm None) vars s"
  by (simp add: setBounds_def)

lemma setBounds_xdaily_accepted:
  assumes "getDouble env (prompts s) = (val, True)" and "0 < val"
  shows "setBounds env ''Set Bounds For X-Daily Data'' vars s =
           for_each (setBounds_body env ''Set Bounds For X-Daily Data'' (Some val)) vars
             (s\<lparr>self := (self s)\<lparr>bDialog := Some (QInputDialog (allocated s))\<rparr>,
        allocated := Suc (allocated s), prompts := Suc (prompts s)\<rparr>)"
  using assms by (simp add: setBounds_def)

lemma setBounds_xdaily_rejected:
  assumes "getDouble env (prompts s) = (val, ok)" and "\<not> ok \<or> val \<le> 0"
  shows "setBounds env ''Set Bounds For X-Daily Data'' vars s =
           (None, s\<lparr>self := (self s)\<lparr>bDialog := Some (QInputDialog (allocated s))\<rparr>,
        allocated := Suc (allocated s), prompts := Suc (prompts s)\<rparr>)"
  using assms by (auto simp add: setBounds_def)

section \<open>Menu bar: properties\<close>

text \<open>
  Claim C1, as the code has it. For each of the seven time-bounds labels (for the
  X-Daily label: when the frequency prompt is accepted with a positive value) and every
  list of selected variables, \<^verbatim>\<open>setBounds\<close> raises nothing, makes the
  bound-setting call that belongs to the label, with its arguments, once for each selected
  variable in order and makes no other call, and appends two transcript entries for each
  selected variable: the header comment and the entry of the call. The header is written
  inside the loop, once per variable, not once per invocation.
\<close>

theorem setBounds_calls_and_entries:
  assumes tab: "(nm, f, args) \<in> set (expected_bounds_call freq)"
    and accepted: "nm = ''Set Bounds For X-Daily Data'' \<Longrightarrow>
                     getDouble env (prompts s) = (freq, True) \<and> 0 < freq"
  shows "fst (setBounds env nm vars s) = None
       \<and> calls (snd (setBounds env nm vars s)) = calls s @ map (\<lambda>v. Call (Times f) v args) vars
       \<and> (\<exists>entry. transcript (snd (setBounds env nm vars s))
             = transcript s @ concat (map (\<lambda>v. [''## '' @ nm, entry v]) vars))
       \<and> length (transcript (snd (setBounds env nm vars s)))
           = length (transcript s) + 2 * length vars"
proof -
  define val where "val = (if nm = ''Set Bounds For X-Daily Data'' then Some freq else None)"
  define s0 where "s0 = (if nm = ''Set Bounds For X-Daily Data''
    then s\<lparr>self := (self s)\<lparr>bDialog := Some (QInputDialog (allocated s))\<rparr>,
        allocated := Suc (allocated s), prompts := Suc (prompts s)\<rparr>
    else s)"
  define body where "body = setBounds_body env nm val"
  have bound: "nm = ''Set Bounds For X-Daily Data'' \<Longrightarrow> val = Some freq"
    by (simp add: val_def)
  have run: "setBounds env nm vars s = for_each body vars s0"
  proof (cases "nm = ''Set Bounds For X-Daily Data''")
    case True
    with accepted setBounds_xdaily_accepted [of env s freq vars] show ?thesis
      by (simp add: val_def s0_def body_def)
  next
    case False
    then show ?thesis by (simp add: val_def s0_def body_def setBounds_not_xdaily)
  qed
  have same: "calls s0 = calls s" "transcript s0 = transcript s"
    by (simp_all add: s0_def)
  have step: "fst (body v t) = None
            \<and> calls (snd (body v t)) = calls t @ [Call (Times f) v args]
            \<and> length (transcript (snd (body v t))) = length (transcript t) + 2" for v t
    unfolding body_def by (rule setBounds_body_expected [OF tab bound])
  have "\<forall>v. \<exists>e. \<forall>t. transcript (snd (body v t)) = transcript t @ [''## '' @ nm, e]"
    unfolding body_def using setBounds_body_header [OF tab bound] by blast
  then have "\<exists>entry. \<forall>v. \<forall>t. transcript (snd (body v t))
                          = transcript t @ [''## '' @ nm, entry v]"
    by (rule choice)
  then obtain entry where header:
    "\<And>v t. transcript (snd (body v t)) = transcript t @ [''## '' @ nm, entry v]"
    by blast
  have c: "fst (for_each body vars s0) = None
         \<and> calls (snd (for_each body vars s0))
             = calls s0 @ map (\<lambda>v. Call (Times f) v args) vars"
    by (rule for_each_calls) (simp add: step)
  have t: "transcript (snd (for_each body vars s0))
             = transcript s0 @ concat (map (\<lambda>v. [''## '' @ nm, entry v]) vars)"
    by (rule for_each_transcript) (simp add: step header)
  have l: "length (transcript (snd (for_each body vars s0)))
             = length (transcript s0) + 2 * length vars"
    by (rule for_each_transcript_length) (simp add: step)
  from t same have e: "\<exists>entry. transcript (snd (setBounds env nm vars s))
             = transcript s @ concat (map (\<lambda>v. [''## '' @ nm, entry v]) vars)"
    unfolding run by auto
  from run c l same e show ?thesis by simp
qed

lemma demo_getDouble: "getDouble (demo_env a) k = a"
  by (simp add: demo_env_def)

theorem setBounds_calls_and_entries_witness:
  "fst (setBounds (demo_env (8, True)) ''Set Bounds For X-Daily Data'' [tas, pr] session_init) = None
   \<and> calls (snd (setBounds (demo_env (8, True)) ''Set Bounds For X-Daily Data'' [tas, pr] session_init))
     = [Call (Times ''setTimeBoundsDaily'') tas [PyFloat 8],
        Call (Times ''setTimeBoundsDaily'') pr [PyFloat 8]]
   \<and> length (transcript
        (snd (setBounds (demo_env (8, True)) ''Set Bounds For X-Daily Data'' [tas, pr] session_init)))
     = 4"
proof -
  have tab: "(''Set Bounds For X-Daily Data'', ''setTimeBoundsDaily'', [PyFloat 8])
               \<in> set (expected_bounds_call 8)"
    by (simp add: expected_bounds_call_def)
  have accepted: "getDouble (demo_env (8, True)) (prompts session_init) = (8, True) \<and> (0::real) < 8"
    by (simp add: demo_getDouble)
  have e: "calls session_init = []" "transcript session_init = []"
    by (simp_all add: session_init_def)
  from setBounds_calls_and_entries [OF tab accepted, of "[tas, pr]"] e
  show ?thesis by simp
qed

text \<open>
  With two selected variables the yearly action appends four entries, not the three
  that one entry per variable plus a single header would make.
\<close>

theorem setBounds_entries_counterexample:
  "length (transcript
     (snd (setBounds (demo_env (8, True)) ''Set Bounds For Yearly Data'' [tas, pr] session_init)))
   \<noteq> length (transcript session_init) + (length [tas, pr] + 1)"
  by (simp add: setBounds_def setBounds_body_def root_record_def library_call_def
        session_init_def)

text \<open>
  Claim C2. For the "Set Bounds For X-Daily Data" action, if the frequency prompt is
  cancelled or answers a value that is not positive, \<^verbatim>\<open>setBounds\<close> returns
  without an exception, makes no call into the library and appends nothing to the
  transcript (nor to the variable pool), whatever the selected variables are.
\<close>

theorem setBounds_xdaily_rejected_silent:
  assumes answer: "getDouble env (prompts s) = (val, ok)"
    and rejected: "\<not> ok \<or> val \<le> 0"
  shows "fst (setBounds env ''Set Bounds For X-Daily Data'' vars s) = None
       \<and> calls (snd (setBounds env ''Set Bounds For X-Daily Data'' vars s)) = calls s
       \<and> transcript (snd (setBounds env ''Set Bounds For X-Daily Data'' vars s)) = transcript s
       \<and> pool (snd (setBounds env ''Set Bounds For X-Daily Data'' vars s)) = pool s"
  by (simp add: setBounds_xdaily_rejected [OF answer rejected])

theorem setBounds_xdaily_rejected_silent_witness:
  "calls (snd (setBounds (demo_env (8, False)) ''Set Bounds For X-Daily Data'' [tas, pr] session_init)) = []
   \<and> transcript (snd (setBounds (demo_env (8, False)) ''Set Bounds For X-Daily Data'' [tas, pr] session_init)) = []
   \<and> calls (snd (setBounds (demo_env (0, True)) ''Set Bounds For X-Daily Data'' [tas, pr] session_init)) = []
   \<and> transcript (snd (setBounds (demo_env (0, True)) ''Set Bounds For X-Daily Data'' [tas, pr] session_init)) = []
   \<and> calls (snd (setBounds (demo_env (-3, True)) ''Set Bounds For X-Daily Data'' [tas, pr] session_init)) = []
   \<and> transcript (snd (setBounds (demo_env (-3, True)) ''Set Bounds For X-Daily Data'' [tas, pr] session_init)) = []"
proof -
  have e: "calls session_init = []" "transcript session_init = []"
    by (simp_all add: session_init_def)
  have cancelled: "getDouble (demo_env (8, False)) (prompts session_init) = (8, False)"
    by (rule demo_getDouble)
  have zero: "getDouble (demo_env (0, True)) (prompts session_init) = (0, True)"
    by (rule demo_getDouble)
  have negative: "getDouble (demo_env (-3, True)) (prompts session_init) = (-3, True)"
    by (rule demo_getDouble)
  have r1: "\<not> False \<or> (8::real) \<le> 0" by simp
  have r2: "\<not> True \<or> (0::real) \<le> 0" by simp
  have r3: "\<not> True \<or> (-3::real) \<le> 0" by simp
  from setBounds_xdaily_rejected_silent [OF cancelled r1, of "[tas, pr]"]
       setBounds_xdaily_rejected_silent [OF zero r2, of "[tas, pr]"]
       setBounds_xdaily_rejected_silent [OF negative r3, of "[tas, pr]"] e
  show ?thesis by simp
qed

lemma for_each_prompts:
  assumes "\<And>v s. prompts (snd (body v s)) = prompts s"
  shows "prompts (snd (for_each body vs s)) = prompts s"
  by (rule for_each_rel [where R = "\<lambda>a b. prompts b = prompts a"]) (simp_all add: assms)

lemma for_each_self:
  assumes "\<And>v s. self (snd (body v s)) = self s"
  shows "self (snd (for_each body vs s)) = self s"
  by (rule for_each_rel [where R = "\<lambda>a b. self b = self a"]) (simp_all add: assms)

lemma for_each_prefix:
  assumes "\<And>v s. prefix (transcript s) (transcript (snd (body v s)))"
  shows "prefix (transcript s) (transcript (snd (for_each body vs s)))"
proof (rule for_each_rel [where R = "\<lambda>a b. prefix (transcript a) (transcript b)"])
  show "prefix (transcript a) (transcript a)" for a by simp
  show "prefix (transcript a) (transcript b) \<Longrightarrow> prefix (transcript b) (transcript c)
        \<Longrightarrow> prefix (transcript a) (transcript c)" for a b c
    by (rule prefix_order.trans)
  show "prefix (transcript s) (transcript (snd (body v s)))" for v s by (rule assms)
qed

text \<open>
  Claim C10. For the "Set Bounds For X-Daily Data" action with the prompt accepted and a
  positive value, the invocation shows exactly one frequency prompt, and the calls it
  makes are \<^verbatim>\<open>setTimeBoundsDaily(v, val)\<close> for the selected variables in
  order, each with that one value as second argument.
\<close>

theorem setBounds_xdaily_one_prompt_same_frequency:
  assumes answer: "getDouble env (prompts s) = (val, True)"
    and positive: "0 < val"
  shows "fst (setBounds env ''Set Bounds For X-Daily Data'' vars s) = None
       \<and> prompts (snd (setBounds env ''Set Bounds For X-Daily Data'' vars s)) = Suc (prompts s)
       \<and> calls (snd (setBounds env ''Set Bounds For X-Daily Data'' vars s))
           = calls s @ map (\<lambda>v. Call (Times ''setTimeBoundsDaily'') v [PyFloat val]) vars"
proof -
  let ?nm = "''Set Bounds For X-Daily Data''"
  let ?s2 = "s\<lparr>self := (self s)\<lparr>bDialog := Some (QInputDialog (allocated s))\<rparr>,
        allocated := Suc (allocated s), prompts := Suc (prompts s)\<rparr>"
  let ?body = "setBounds_body env ?nm (Some val)"
  have run: "setBounds env ?nm vars s = for_each ?body vars ?s2"
    by (rule setBounds_xdaily_accepted [OF answer positive])
  have tab: "(?nm, ''setTimeBoundsDaily'', [PyFloat val]) \<in> set (expected_bounds_call val)"
    by (simp add: expected_bounds_call_def)
  have step: "fst (?body v t) = None
            \<and> calls (snd (?body v t)) = calls t @ [Call (Times ''setTimeBoundsDaily'') v [PyFloat val]]"
    for v t
    using setBounds_body_expected [OF tab, of "Some val"] by simp
  have c: "fst (for_each ?body vars ?s2) = None
         \<and> calls (snd (for_each ?body vars ?s2))
             = calls ?s2 @ map (\<lambda>v. Call (Times ''setTimeBoundsDaily'') v [PyFloat val]) vars"
    by (rule for_each_calls) (rule step)
  have p: "prompts (snd (for_each ?body vars ?s2)) = prompts ?s2"
    by (rule for_each_prompts) (rule setBounds_body_prompts)
  from run c p show ?thesis by simp
qed

theorem setBounds_xdaily_one_prompt_same_frequency_witness:
  "prompts (snd (setBounds (demo_env (8, True)) ''Set Bounds For X-Daily Data'' [tas, pr] session_init)) = 1
   \<and> calls (snd (setBounds (demo_env (8, True)) ''Set Bounds For X-Daily Data'' [tas, pr] session_init))
       = [Call (Times ''setTimeBoundsDaily'') tas [PyFloat 8],
          Call (Times ''setTimeBoundsDaily'') pr [PyFloat 8]]"
proof -
  have answer: "getDouble (demo_env (8, True)) (prompts session_init) = (8, True)"
    by (rule demo_getDouble)
  have positive: "(0::real) < 8" by simp
  have e: "calls session_init = []" "prompts session_init = 0"
    by (simp_all add: session_init_def)
  from setBounds_xdaily_one_prompt_same_frequency [OF answer positive, of "[tas, pr]"] e
  show ?thesis by simp
qed

lemma setBounds_prefix:
  "prefix (transcript s) (transcript (snd (setBounds env nm vars s)))"
proof (cases "nm = ''Set Bounds For X-Daily Data''")
  case False
  then show ?thesis
    by (simp add: setBounds_not_xdaily for_each_prefix setBounds_body_prefix)
next
  case True
  let ?s2 = "s\<lparr>self := (self s)\<lparr>bDialog := Some (QInputDialog (allocated s))\<rparr>,
        allocated := Suc (allocated s), prompts := Suc (prompts s)\<rparr>"
  obtain val ok where a: "getDouble env (prompts s) = (val, ok)"
    by (cases "getDouble env (prompts s)")
  show ?thesis
  proof (cases "\<not> ok \<or> val \<le> 0")
    case True
    with a \<open>nm = _\<close> show ?thesis by (simp add: setBounds_xdaily_rejected)
  next
    case False
    then have ok: "getDouble env (prompts s) = (val, True)" and pos: "0 < val"
      using a by auto
    have "prefix (transcript ?s2)
            (transcript (snd (for_each (setBounds_body env nm (Some val)) vars ?s2)))"
      by (rule for_each_prefix) (rule setBounds_body_prefix)
    with \<open>nm = _\<close> show ?thesis
      by (simp add: setBounds_xdaily_accepted [OF ok pos])
  qed
qed

lemma seasons_body_prefix:
  "prefix (transcript s) (transcript (snd (seasons_body env menu nm fu funcnm rec v s)))"
  by (simp add: seasons_body_effect)

lemma seasons_prefix:
  "prefix (transcript s) (transcript (snd (seasons env menu nm vars s)))"
  by (simp add: seasons_def for_each_prefix seasons_body_prefix split: sum.split prod.split)

text \<open>
  Claim C8. The transcript is append-only under \<^verbatim>\<open>setBounds\<close> and
  \<^verbatim>\<open>seasons\<close>: for every invocation, whether it returns or raises, the
  transcript before it is a prefix of the transcript after it.
\<close>

theorem transcript_append_only:
  "prefix (transcript s) (transcript (snd (setBounds env nm vars s)))
   \<and> prefix (transcript s') (transcript (snd (seasons env' menu label vars' s')))"
  by (simp add: setBounds_prefix seasons_prefix)

theorem transcript_append_only_witness:
  "prefix (transcript (root_record ''# earlier entry'' session_init))
     (transcript (snd (setBounds (demo_env (8, True)) ''Set Bounds For Monthly Data'' [tas]
        (root_record ''# earlier entry'' session_init))))
   \<and> prefix (transcript (root_record ''# earlier entry'' session_init))
     (transcript (snd (seasons (demo_env (8, True)) ''Departures'' ''JJA'' [tas]
        (root_record ''# earlier entry'' session_init))))
   \<and> transcript (root_record ''# earlier entry'' session_init) = [''# earlier entry'']"
  using transcript_append_only [of "root_record ''# earlier entry'' session_init"
          "demo_env (8, True)" "''Set Bounds For Monthly Data''" "[tas]"
          "root_record ''# earlier entry'' session_init"
          "demo_env (8, True)" "''Departures''" "''JJA''" "[tas]"]
  by (simp add: root_record_def session_init_def)

lemma which_season_listed:
  assumes label: "nm \<in> set season_labels"
    and lib: "\<forall>l \<in> set slicer_names. times_hasattr env l"
  shows "\<exists>fn. which_season env nm = Inr fn"
proof (cases "nm \<in> set means_labels")
  case True
  then show ?thesis by (auto simp add: means_labels_def which_season_def)
next
  case False
  with label have "nm \<in> set slicer_names"
    by (auto simp add: season_labels_def means_labels_def slicer_names_def)
  with lib have "times_hasattr env nm" by blast
  then show ?thesis by (simp add: which_season_def)
qed

lemma seasons_resolved:
  assumes "which_season env nm = Inr fn"
  shows "fst (seasons env menu nm vars s) = None
       \<and> calls (snd (seasons env menu nm vars s))
           = calls s @ map (\<lambda>v. Call (fst (which_operator menu fn)) v []) vars
       \<and> pool (snd (seasons env menu nm vars s))
           = pool s @ map (\<lambda>v. (times_call env (fst (which_operator menu fn)) v)
                                  \<lparr>vid := seasons_newid menu nm v\<rparr>) vars
       \<and> length (transcript (snd (seasons env menu nm vars s)))
           = length (transcript s) + 2 * length vars"
proof -
  obtain fu funcnm rec0 where op: "which_operator menu fn = (fu, funcnm, rec0)"
    by (cases "which_operator menu fn")
  let ?body = "seasons_body env menu nm fu funcnm (rec0 @ lower nm)"
  have run: "seasons env menu nm vars s = for_each ?body vars s"
    using assms op by (simp add: seasons_def)
  have c: "fst (for_each ?body vars s) = None
         \<and> calls (snd (for_each ?body vars s)) = calls s @ map (\<lambda>v. Call fu v []) vars"
    by (rule for_each_calls) (simp add: seasons_body_effect)
  have p: "pool (snd (for_each ?body vars s))
             = pool s @ map (\<lambda>v. (times_call env fu v)\<lparr>vid := seasons_newid menu nm v\<rparr>) vars"
    by (rule for_each_pool) (simp add: seasons_body_effect)
  have l: "length (transcript (snd (for_each ?body vars s)))
             = length (transcript s) + 2 * length vars"
    by (rule for_each_transcript_length) (simp add: seasons_body_effect)
  from run op c p l show ?thesis by simp
qed

lemma seasons_unresolved:
  assumes "which_season env nm = Inl e"
  shows "seasons env menu nm vars s = (Some e, s)"
  using assms by (simp add: seasons_def)

text \<open>
  Claim C3. For every menu title among "Extract", "Climatology" and "Departures", every
  label of these menus and every list of selected variables, given a library that has
  the slicers the menus name, \<^verbatim>\<open>seasons\<close> raises nothing and adds one result
  per selected variable to the pool, in order, whose id is the id of the variable, an
  underscore, the label in lower case without whitespace, and then the menu title in
  lower case exactly when the menu is not "Extract".
\<close>

theorem seasons_result_id:
  assumes menu: "menu \<in> set season_menus"
    and label: "nm \<in> set season_labels"
    and lib: "\<forall>l \<in> set slicer_names. times_hasattr env l"
  shows "fst (seasons env menu nm vars s) = None
       \<and> map vid (drop (length (pool s)) (pool (snd (seasons env menu nm vars s))))
           = map (\<lambda>v. spec_result_id menu nm (vid v)) vars"
proof -
  obtain fn where "which_season env nm = Inr fn"
    using which_season_listed [OF label lib] by blast
  from seasons_resolved [OF this, of menu vars s]
  show ?thesis by (simp add: o_def seasons_newid_spec)
qed

lemma demo_hasattr: "\<forall>l \<in> set slicer_names. times_hasattr (demo_env a) l"
  by (simp add: demo_env_def)

theorem seasons_result_id_witness:
  "map vid (pool (snd (seasons (demo_env (8, True)) ''Climatology'' ''Annual Means'' [tas, pr] session_init)))
     = [''tas_annualmeansclimatology'', ''pr_annualmeansclimatology'']
   \<and> map vid (pool (snd (seasons (demo_env (8, True)) ''Extract'' ''Seasonal Means'' [tas, pr] session_init)))
     = [''tas_seasonalmeans'', ''pr_seasonalmeans'']
   \<and> map vid (pool (snd (seasons (demo_env (8, True)) ''Departures'' ''DJF'' [tas, pr] session_init)))
     = [''tas_djfdepartures'', ''pr_djfdepartures'']"
proof -
  have m: "''Climatology'' \<in> set season_menus" "''Extract'' \<in> set season_menus"
    "''Departures'' \<in> set season_menus"
    by (simp_all add: season_menus_def)
  have l: "''Annual Means'' \<in> set season_labels" "''Seasonal Means'' \<in> set season_labels"
    "''DJF'' \<in> set season_labels"
    by (simp_all add: season_labels_def)
  have p: "pool session_init = []" by (simp add: session_init_def)
  have i: "spec_result_id ''Climatology'' ''Annual Means'' i = i @ ''_annualmeansclimatology''"
    "spec_result_id ''Extract'' ''Seasonal Means'' i = i @ ''_seasonalmeans''"
    "spec_result_id ''Departures'' ''DJF'' i = i @ ''_djfdepartures''" for i
    by (simp_all add: spec_result_id_def lower_def lower_char_def isspace_def
          ascii_uppercase_def ascii_lowercase_def)
  from seasons_result_id [OF m(1) l(1) demo_hasattr, of "(8, True)" "[tas, pr]" session_init]
       seasons_result_id [OF m(2) l(2) demo_hasattr, of "(8, True)" "[tas, pr]" session_init]
       seasons_result_id [OF m(3) l(3) demo_hasattr, of "(8, True)" "[tas, pr]" session_init]
  show ?thesis by (simp add: p i tas_def pr_def)
qed

lemma setBounds_unknown:
  assumes "nm \<notin> set bounds_labels"
  shows "setBounds env nm vars s = (None, s)"
proof -
  from assms have "nm \<noteq> ''Set Bounds For X-Daily Data''"
    by (auto simp add: bounds_labels_def)
  then have "setBounds env nm vars s = for_each (setBounds_body env nm None) vars s"
    by (rule setBounds_not_xdaily)
  also have "\<dots> = (None, s)"
    by (rule for_each_skip) (rule setBounds_body_unknown [OF assms])
  finally show ?thesis .
qed

lemma which_season_missing:
  assumes "label \<notin> set means_labels" and "\<not> times_hasattr env label"
  shows "which_season env label = Inl (AttributeError label)"
  using assms by (simp add: means_labels_def which_season_def)

text \<open>
  Claim C6, as the code has it. A label that is none of the seven time-bounds labels
  makes \<^verbatim>\<open>setBounds\<close> a silent no-op: no exception, no prompt, no call, no
  transcript entry, the session is what it was. \<^verbatim>\<open>seasons\<close> has no such
  branch: a label other than its three "... Means" labels is looked up by name in
  \<^verbatim>\<open>cdutil.times\<close>, and when the module has no attribute of that name the
  handler raises \<^verbatim>\<open>AttributeError\<close>, before any call or transcript entry.
\<close>

theorem unrecognized_label:
  "(nm \<notin> set bounds_labels \<longrightarrow> setBounds env nm vars s = (None, s))
   \<and> (label \<notin> set means_labels \<and> \<not> times_hasattr env' label \<longrightarrow>
        seasons env' menu label vars' s' = (Some (AttributeError label), s'))"
  by (simp add: setBounds_unknown which_season_missing seasons_unresolved)

theorem unrecognized_label_witness:
  "setBounds (demo_env (8, True)) ''Foo'' [tas, pr] session_init = (None, session_init)
   \<and> seasons (demo_env (8, True)) ''Extract'' ''Foo'' [tas, pr] session_init
       = (Some (AttributeError ''Foo''), session_init)"
proof -
  have a: "''Foo'' \<notin> set bounds_labels" by (simp add: bounds_labels_def)
  have b: "''Foo'' \<notin> set means_labels" by (simp add: means_labels_def)
  have c: "\<not> times_hasattr (demo_env (8, True)) ''Foo''"
    by (simp add: demo_env_def slicer_names_def)
  from unrecognized_label [where nm = "''Foo''" and label = "''Foo''"
         and env = "demo_env (8, True)" and env' = "demo_env (8, True)"
         and vars = "[tas, pr]" and vars' = "[tas, pr]"
         and s = session_init and s' = session_init and menu = "''Extract''"] a b c
  show ?thesis by simp
qed

text \<open>
  The label "Foo" is in no menu, and \<^verbatim>\<open>seasons\<close> raises on it even with no
  variable selected.
\<close>

theorem seasons_unrecognized_counterexample:
  "''Foo'' \<notin> set season_labels
   \<and> fst (seasons (demo_env (8, True)) ''Extract'' ''Foo'' [] session_init)
       = Some (AttributeError ''Foo'')"
  by (simp add: season_labels_def seasons_def which_season_def demo_env_def slicer_names_def)

text \<open>
  Claim C7. The transcript entry of a call is meant to be the text of the call made.
  For "Set Bounds For Daily Data" the code calls
  \<^verbatim>\<open>cdutil.times.setTimeBoundsDaily(v)\<close> and records
  \<^verbatim>\<open>cdutil.times.setTimeBoundDaily(<id>)\<close>, a name without the "s" that the
  function called has: entry and call differ. This theorem states what the code does.
\<close>

theorem setBounds_daily_call_and_entry:
  "calls (snd (setBounds env ''Set Bounds For Daily Data'' vars s))
     = calls s @ map (\<lambda>v. Call (Times ''setTimeBoundsDaily'') v []) vars
   \<and> transcript (snd (setBounds env ''Set Bounds For Daily Data'' vars s))
     = transcript s @ concat (map (\<lambda>v. [''## Set Bounds For Daily Data'',
                                         ''cdutil.times.setTimeBoundDaily('' @ vid v @ '')'']) vars)"
proof -
  let ?body = "setBounds_body env ''Set Bounds For Daily Data'' None"
  have run: "setBounds env ''Set Bounds For Daily Data'' vars s = for_each ?body vars s"
    by (rule setBounds_not_xdaily) simp
  have c: "fst (for_each ?body vars s) = None
         \<and> calls (snd (for_each ?body vars s))
             = calls s @ map (\<lambda>v. Call (Times ''setTimeBoundsDaily'') v []) vars"
    by (rule for_each_calls)
       (simp add: setBounds_body_def root_record_def library_call_def)
  have t: "transcript (snd (for_each ?body vars s))
             = transcript s @ concat (map (\<lambda>v. [''## Set Bounds For Daily Data'',
                  ''cdutil.times.setTimeBoundDaily('' @ vid v @ '')'']) vars)"
    by (rule for_each_transcript)
       (simp add: setBounds_body_def root_record_def library_call_def)
  from run c t show ?thesis by simp
qed

theorem setBounds_daily_call_and_entry_witness:
  "calls (snd (setBounds (demo_env (8, True)) ''Set Bounds For Daily Data'' [tas] session_init))
     = [Call (Times ''setTimeBoundsDaily'') tas []]
   \<and> transcript (snd (setBounds (demo_env (8, True)) ''Set Bounds For Daily Data'' [tas] session_init))
     = [''## Set Bounds For Daily Data'', ''cdutil.times.setTimeBoundDaily(tas)'']
   \<and> ''cdutil.times.setTimeBoundDaily(tas)'' \<noteq> ''cdutil.times.setTimeBoundsDaily(tas)''"
  using setBounds_daily_call_and_entry [of "demo_env (8, True)" "[tas]" session_init]
  by (simp add: session_init_def tas_def)

lemma setBounds_self:
  "self (snd (setBounds env nm vars s)) =
     (if nm = ''Set Bounds For X-Daily Data''
      then (self s)\<lparr>bDialog := Some (QInputDialog (allocated s))\<rparr> else self s)"
proof (cases "nm = ''Set Bounds For X-Daily Data''")
  case False
  then show ?thesis
    by (simp add: setBounds_not_xdaily for_each_self setBounds_body_self)
next
  case True
  let ?s2 = "s\<lparr>self := (self s)\<lparr>bDialog := Some (QInputDialog (allocated s))\<rparr>,
        allocated := Suc (allocated s), prompts := Suc (prompts s)\<rparr>"
  obtain val ok where a: "getDouble env (prompts s) = (val, ok)"
    by (cases "getDouble env (prompts s)")
  show ?thesis
  proof (cases "\<not> ok \<or> val \<le> 0")
    case True
    with a \<open>nm = _\<close> show ?thesis by (simp add: setBounds_xdaily_rejected)
  next
    case False
    then have ok: "getDouble env (prompts s) = (val, True)" and pos: "0 < val"
      using a by auto
    have "self (snd (for_each (setBounds_body env nm (Some val)) vars ?s2)) = self ?s2"
      by (rule for_each_self) (rule setBounds_body_self)
    with \<open>nm = _\<close> show ?thesis
      by (simp add: setBounds_xdaily_accepted [OF ok pos])
  qed
qed

lemma seasons_self: "self (snd (seasons env menu label vars s)) = self s"
  by (simp add: seasons_def for_each_self seasons_body_effect split: sum.split prod.split)

lemma setBounds_body_allocated:
  "allocated (snd (setBounds_body env nm val v s)) = allocated s"
  by (simp add: setBounds_body_def root_record_def library_call_def split: option.split)

lemma for_each_allocated:
  assumes "\<And>v s. allocated (snd (body v s)) = allocated s"
  shows "allocated (snd (for_each body vs s)) = allocated s"
  by (rule for_each_rel [where R = "\<lambda>a b. allocated b = allocated a"]) (simp_all add: assms)

lemma setBounds_xdaily_allocated:
  "allocated (snd (setBounds env ''Set Bounds For X-Daily Data'' vars s)) = Suc (allocated s)"
proof -
  let ?nm = "''Set Bounds For X-Daily Data''"
  let ?s2 = "s\<lparr>self := (self s)\<lparr>bDialog := Some (QInputDialog (allocated s))\<rparr>,
        allocated := Suc (allocated s), prompts := Suc (prompts s)\<rparr>"
  obtain val ok where a: "getDouble env (prompts s) = (val, ok)"
    by (cases "getDouble env (prompts s)")
  show ?thesis
  proof (cases "\<not> ok \<or> val \<le> 0")
    case True
    with a show ?thesis by (simp add: setBounds_xdaily_rejected)
  next
    case False
    then have ok: "getDouble env (prompts s) = (val, True)" and pos: "0 < val"
      using a by auto
    have "allocated (snd (for_each (setBounds_body env ?nm (Some val)) vars ?s2)) = allocated ?s2"
      by (rule for_each_allocated) (rule setBounds_body_allocated)
    then show ?thesis
      by (simp add: setBounds_xdaily_accepted [OF ok pos])
  qed
qed

lemma stats_found:
  assumes "map_of (statsFuncs (self s)) key = Some d"
  shows "stats key s =
           (None, s\<lparr>self := (self s)\<lparr>pop := Some \<lparr>defs = d, visible = True,
                                                  popup_obj = allocated s\<rparr>\<rparr>,
                    allocated := Suc (allocated s)\<rparr>)"
  using assms by (simp add: stats_def)

lemma stats_missing:
  assumes "map_of (statsFuncs (self s)) key = None"
  shows "stats key s = (Some (KeyError key), s)"
  using assms by (simp add: stats_def)

lemma stats_frame:
  "statsFuncs (self (snd (stats key s))) = statsFuncs (self s)
   \<and> bDialog (self (snd (stats key s))) = bDialog (self s)
   \<and> transcript (snd (stats key s)) = transcript s
   \<and> pool (snd (stats key s)) = pool s
   \<and> calls (snd (stats key s)) = calls s
   \<and> prompts (snd (stats key s)) = prompts s"
  by (simp add: stats_def split: option.split)

lemma stats_again:
  assumes "map_of (statsFuncs (self s)) key = Some d"
  shows "pop (self (snd (stats key (snd (stats key s)))))
           = Some \<lparr>defs = d, visible = True, popup_obj = Suc (allocated s)\<rparr>"
proof -
  let ?s1 = "snd (stats key s)"
  have "map_of (statsFuncs (self ?s1)) key = Some d"
    using assms by (simp add: stats_frame)
  from stats_found [OF this] have "pop (self (snd (stats key ?s1)))
      = Some \<lparr>defs = d, visible = True, popup_obj = allocated ?s1\<rparr>"
    by simp
  moreover have "allocated ?s1 = Suc (allocated s)"
    by (simp add: stats_found [OF assms])
  ultimately show ?thesis by simp
qed

text \<open>
  Claim C9, as the code has it. \<^verbatim>\<open>seasons\<close>, and
  \<^verbatim>\<open>setBounds\<close> for every label but the X-Daily one, leave the widget's own
  state unchanged, and no handler changes the table \<^verbatim>\<open>self.statsFuncs\<close>. The
  X-Daily action assigns a newly built input dialog to \<^verbatim>\<open>self.bDialog\<close>.
  \<^verbatim>\<open>stats\<close>, for a label of the table, assigns a newly built popup for that
  label's entry, shown, to \<^verbatim>\<open>self.pop\<close> and touches neither transcript nor pool;
  for any other label it raises \<^verbatim>\<open>KeyError\<close> and changes nothing. A second
  invocation replaces the stored dialog or popup by another new object of the same
  content: the widget's state after it is the state after the first up to the identity
  of that object, and not otherwise.
\<close>

theorem handlers_dispatcher_state:
  "self (snd (seasons env menu label vars s)) = self s
   \<and> (nm \<noteq> ''Set Bounds For X-Daily Data'' \<longrightarrow> self (snd (setBounds env nm vars s)) = self s)
   \<and> self (snd (setBounds env ''Set Bounds For X-Daily Data'' vars s))
       = (self s)\<lparr>bDialog := Some (QInputDialog (allocated s))\<rparr>
   \<and> bDialog (self (snd (setBounds env ''Set Bounds For X-Daily Data'' vars'
         (snd (setBounds env ''Set Bounds For X-Daily Data'' vars s)))))
       = Some (QInputDialog (Suc (allocated s)))
   \<and> statsFuncs (self (snd (setBounds env nm vars s))) = statsFuncs (self s)
   \<and> (map_of (statsFuncs (self s)) key = Some d \<longrightarrow>
        stats key s =
          (None, s\<lparr>self := (self s)\<lparr>pop := Some \<lparr>defs = d, visible = True,
                                                 popup_obj = allocated s\<rparr>\<rparr>,
                   allocated := Suc (allocated s)\<rparr>))
   \<and> (map_of (statsFuncs (self s)) key = Some d \<longrightarrow>
        pop (self (snd (stats key (snd (stats key s)))))
          = Some \<lparr>defs = d, visible = True, popup_obj = Suc (allocated s)\<rparr>)
   \<and> (map_of (statsFuncs (self s)) key = None \<longrightarrow> stats key s = (Some (KeyError key), s))
   \<and> statsFuncs (self (snd (stats key s))) = statsFuncs (self s)
   \<and> bDialog (self (snd (stats key s))) = bDialog (self s)
   \<and> transcript (snd (stats key s)) = transcript s
   \<and> pool (snd (stats key s)) = pool s"
  by (simp add: seasons_self setBounds_self setBounds_xdaily_allocated
        stats_found stats_again stats_missing stats_frame)

lemma statsFuncs_Mean:
  "map_of (statsFuncs (self session_init)) ''Mean''
     = Some \<lparr>stat_func = ''cdutil.averager'', nargsMin = 1, nargsMax = 2, choices = None\<rparr>"
  by (simp add: session_init_def dispatcher_init_def statsFuncs_init_def)

theorem handlers_dispatcher_state_witness:
  "self (snd (seasons (demo_env (8, True)) ''Extract'' ''DJF'' [tas] session_init)) = dispatcher_init
   \<and> self (snd (setBounds (demo_env (8, True)) ''Set Bounds For Daily Data'' [tas] session_init))
       = dispatcher_init
   \<and> bDialog (self (snd (setBounds (demo_env (8, True)) ''Set Bounds For X-Daily Data'' [tas]
         session_init))) = Some (QInputDialog 0)
   \<and> bDialog (self (snd (setBounds (demo_env (8, True)) ''Set Bounds For X-Daily Data'' [tas]
         (snd (setBounds (demo_env (8, True)) ''Set Bounds For X-Daily Data'' [tas]
            session_init))))) = Some (QInputDialog 1)
   \<and> pop (self (snd (stats ''Mean'' session_init)))
       = Some \<lparr>defs = \<lparr>stat_func = ''cdutil.averager'', nargsMin = 1, nargsMax = 2, choices = None\<rparr>,
               visible = True, popup_obj = 0\<rparr>
   \<and> pop (self (snd (stats ''Mean'' (snd (stats ''Mean'' session_init)))))
       = Some \<lparr>defs = \<lparr>stat_func = ''cdutil.averager'', nargsMin = 1, nargsMax = 2, choices = None\<rparr>,
               visible = True, popup_obj = 1\<rparr>
   \<and> statsFuncs (self (snd (stats ''Mean'' session_init))) = statsFuncs_init"
proof -
  let ?env = "demo_env (8, True)"
  let ?mean = "\<lparr>stat_func = ''cdutil.averager'', nargsMin = 1, nargsMax = 2, choices = None\<rparr>"
  have i: "self session_init = dispatcher_init" "allocated session_init = 0"
    "statsFuncs dispatcher_init = statsFuncs_init"
    by (simp_all add: session_init_def dispatcher_init_def)
  note h = handlers_dispatcher_state [where env = ?env and menu = "''Extract''"
          and label = "''DJF''" and vars = "[tas]" and vars' = "[tas]" and s = session_init
          and nm = "''Set Bounds For Daily Data''" and key = "''Mean''" and d = ?mean]
  have daily: "''Set Bounds For Daily Data'' \<noteq> ''Set Bounds For X-Daily Data''" by simp
  from h have a: "self (snd (seasons ?env ''Extract'' ''DJF'' [tas] session_init))
                    = self session_init"
    by blast
  from h daily have b: "self (snd (setBounds ?env ''Set Bounds For Daily Data'' [tas] session_init))
                    = self session_init"
    by blast
  from h have c: "self (snd (setBounds ?env ''Set Bounds For X-Daily Data'' [tas] session_init))
                    = (self session_init)\<lparr>bDialog := Some (QInputDialog (allocated session_init))\<rparr>"
    by blast
  from h have d: "bDialog (self (snd (setBounds ?env ''Set Bounds For X-Daily Data'' [tas]
                     (snd (setBounds ?env ''Set Bounds For X-Daily Data'' [tas] session_init)))))
                    = Some (QInputDialog (Suc (allocated session_init)))"
    by blast
  from h statsFuncs_Mean have once: "stats ''Mean'' session_init =
      (None, session_init\<lparr>self := (self session_init)\<lparr>pop := Some \<lparr>defs = ?mean, visible = True,
                                   popup_obj = allocated session_init\<rparr>\<rparr>,
                            allocated := Suc (allocated session_init)\<rparr>)"
    by blast
  then have e: "pop (self (snd (stats ''Mean'' session_init)))
                  = Some \<lparr>defs = ?mean, visible = True, popup_obj = allocated session_init\<rparr>"
    by simp
  from h statsFuncs_Mean have f: "pop (self (snd (stats ''Mean'' (snd (stats ''Mean'' session_init)))))
                  = Some \<lparr>defs = ?mean, visible = True, popup_obj = Suc (allocated session_init)\<rparr>"
    by blast
  from h have g: "statsFuncs (self (snd (stats ''Mean'' session_init)))
                    = statsFuncs (self session_init)"
    by blast
  show ?thesis
    by (simp add: a b c d e f g i)
qed

text \<open>
  On a fresh widget \<^verbatim>\<open>self.pop\<close> is unset; after
  \<^verbatim>\<open>stats\<close> on "Mean" it holds the popup for the mean.
\<close>

theorem stats_changes_dispatcher_counterexample:
  "pop (self session_init) = None
   \<and> pop (self (snd (stats ''Mean'' session_init)))
       = Some \<lparr>defs = \<lparr>stat_func = ''cdutil.averager'', nargsMin = 1, nargsMax = 2, choices = None\<rparr>,
               visible = True, popup_obj = 0\<rparr>
   \<and> self (snd (stats ''Mean'' session_init)) \<noteq> self session_init"
  by (simp add: stats_def session_init_def dispatcher_init_def statsFuncs_init_def)

end
